theory Spec2Isabelle
  imports Main
begin

section \<open>JavaScript values\<close>

text \<open>
  The tool arguments (\<^verbatim>\<open>request.params.arguments\<close>) and the body of a provider error
  (\<^verbatim>\<open>body?: any\<close>) are untyped JSON data. An object is an association list; a lookup
  takes the first binding of a key. Numbers are integers: a fractional number is outside
  this model.
\<close>

datatype jsval =
    JUndefined
  | JNull
  | JBool bool
  | JNum int
  | JStr string
  | JArr "jsval list"
  | JObj "(string \<times> jsval) list"

text \<open>Decimal rendering of a number in a template literal, for integers below \<open>10^21\<close>
  in magnitude (beyond that JavaScript switches to exponent notation).\<close>

definition digit_char :: "nat \<Rightarrow> char" where
  "digit_char n = ''0123456789'' ! n"

fun show_nat :: "nat \<Rightarrow> string" where
  "show_nat n = (if n < 10 then [digit_char n] else show_nat (n div 10) @ [digit_char (n mod 10)])"

declare show_nat.simps [simp del]

definition show_int :: "int \<Rightarrow> string" where
  "show_int i = (if i < 0 then CHR ''-'' # show_nat (nat (- i)) else show_nat (nat i))"

text \<open>\<^verbatim>\<open>xs.join(sep)\<close> on a list of strings.\<close>

fun join :: "string \<Rightarrow> string list \<Rightarrow> string" where
  "join sep [] = []"
| "join sep [x] = x"
| "join sep (x # y # ys) = x @ sep @ join sep (y # ys)"

text \<open>Property read \<^verbatim>\<open>v[k]\<close> on a value that is not \<^verbatim>\<open>null\<close> or \<^verbatim>\<open>undefined\<close>, for a
  key that no prototype defines (\<^verbatim>\<open>to\<close>, \<^verbatim>\<open>subject\<close>, \<^verbatim>\<open>text\<close>, \<^verbatim>\<open>html\<close>,
  \<^verbatim>\<open>response\<close>, \<^verbatim>\<open>status\<close>, \<^verbatim>\<open>body\<close>, \<^verbatim>\<open>errors\<close>, and \<^verbatim>\<open>message\<close> on the
  data of an error body): an object yields the stored value, anything else
  \<^verbatim>\<open>undefined\<close>.\<close>

fun js_get :: "jsval \<Rightarrow> string \<Rightarrow> jsval" where
  "js_get (JObj kvs) k = (case map_of kvs k of None \<Rightarrow> JUndefined | Some v \<Rightarrow> v)"
| "js_get _ k = JUndefined"

text \<open>Truthiness, as tested by \<^verbatim>\<open>&&\<close>, \<^verbatim>\<open>||\<close> and \<^verbatim>\<open>?:\<close>.\<close>

fun truthy :: "jsval \<Rightarrow> bool" where
  "truthy JUndefined = False"
| "truthy JNull = False"
| "truthy (JBool b) = b"
| "truthy (JNum n) = (n \<noteq> 0)"
| "truthy (JStr s) = (s \<noteq> [])"
| "truthy (JArr _) = True"
| "truthy (JObj _) = True"

text \<open>Truthiness of an optional string field (\<^verbatim>\<open>string | undefined\<close>): present and
  not empty.\<close>

fun truthy_str :: "string option \<Rightarrow> bool" where
  "truthy_str None = False"
| "truthy_str (Some s) = (s \<noteq> [])"

section \<open>The validation schema\<close>

text \<open>
  \<^verbatim>\<open>EmailSchema\<close> (main.ts, lines 22-33) is built from the combinators of the zod
  library, version 3.23.8 (deno.json). The library is a dependency and not part of the
  repository, so its parsers are written out here as that version runs them: a parser
  appends its issues to a shared list and returns a status, \<open>OK\<close> (valid), \<open>DIRTY\<close>
  (a value together with issues) or \<open>INVALID\<close> (aborted, no value).
  The regular expression behind \<^verbatim>\<open>z.string().email()\<close> is a parameter \<open>isEmail\<close>.
\<close>

record ZodIssue =
  path :: "string list"
  message :: string

datatype 'a ParseReturn = OK 'a | DIRTY 'a | INVALID

text \<open>\<^verbatim>\<open>getParsedType\<close>: the name zod gives to the type of a value.\<close>

fun getParsedType :: "jsval \<Rightarrow> string" where
  "getParsedType JUndefined = ''undefined''"
| "getParsedType JNull = ''null''"
| "getParsedType (JBool _) = ''boolean''"
| "getParsedType (JNum _) = ''number''"
| "getParsedType (JStr _) = ''string''"
| "getParsedType (JArr _) = ''array''"
| "getParsedType (JObj _) = ''object''"

text \<open>The issue of a type mismatch, with the message of zod's default error map.\<close>

definition invalid_type :: "string list \<Rightarrow> string \<Rightarrow> jsval \<Rightarrow> ZodIssue" where
  "invalid_type p expected v =
     \<lparr>path = p,
      message = (if v = JUndefined then ''Required''
                 else ''Expected '' @ expected @ '', received '' @ getParsedType v)\<rparr>"

text \<open>The checks of a string schema: \<^verbatim>\<open>.min(n, msg)\<close> and \<^verbatim>\<open>.email(msg)\<close>.\<close>

datatype StringCheck = MinLen nat string | Email string

fun run_check :: "(string \<Rightarrow> bool) \<Rightarrow> string list \<Rightarrow> string \<Rightarrow> StringCheck \<Rightarrow> ZodIssue list" where
  "run_check isEmail p s (MinLen n msg) =
     (if length s < n then [\<lparr>path = p, message = msg\<rparr>] else [])"
| "run_check isEmail p s (Email msg) =
     (if \<not> isEmail s then [\<lparr>path = p, message = msg\<rparr>] else [])"

text \<open>\<^verbatim>\<open>ZodString._parse\<close>: a value that is not a string aborts; a failed check adds its
  issue and leaves the result dirty.\<close>

definition ZodString_parse ::
  "(string \<Rightarrow> bool) \<Rightarrow> StringCheck list \<Rightarrow> string list \<Rightarrow> jsval \<Rightarrow> ZodIssue list \<times> string ParseReturn" where
  "ZodString_parse isEmail checks p v =
     (case v of
        JStr s \<Rightarrow>
          (let issues = concat (map (run_check isEmail p s) checks)
           in (issues, if issues = [] then OK s else DIRTY s))
      | _ \<Rightarrow> ([invalid_type p ''string'' v], INVALID))"

text \<open>\<^verbatim>\<open>ZodOptional._parse\<close>: \<^verbatim>\<open>undefined\<close> is accepted as it is, anything else goes
  to the inner schema.\<close>

definition ZodOptional_parse ::
  "(string list \<Rightarrow> jsval \<Rightarrow> ZodIssue list \<times> string ParseReturn) \<Rightarrow> string list \<Rightarrow> jsval
     \<Rightarrow> ZodIssue list \<times> string option ParseReturn" where
  "ZodOptional_parse inner p v =
     (if v = JUndefined then ([], OK None)
      else (case inner p v of
              (issues, OK s) \<Rightarrow> (issues, OK (Some s))
            | (issues, DIRTY s) \<Rightarrow> (issues, DIRTY (Some s))
            | (issues, INVALID) \<Rightarrow> (issues, INVALID)))"

record EmailRequest =
  req_to :: string
  req_subject :: string
  req_text :: "string option"
  req_html :: "string option"

text \<open>What \<^verbatim>\<open>ParseStatus.mergeObjectSync\<close> reads from the status of a key: whether
  it is dirty, and the value it carries (none when aborted).\<close>

fun is_dirty :: "'a ParseReturn \<Rightarrow> bool" where
  "is_dirty (DIRTY _) = True"
| "is_dirty _ = False"

fun value_of :: "'a ParseReturn \<Rightarrow> 'a option" where
  "value_of (OK x) = Some x"
| "value_of (DIRTY x) = Some x"
| "value_of INVALID = None"

text \<open>
  \<^verbatim>\<open>ZodObject._parse\<close> for the shape \<^verbatim>\<open>{to, subject, text, html}\<close>. A value that is
  not an object aborts with one issue at the empty path. Otherwise every key of the shape
  is parsed, in the order of the shape, before the results are merged: one aborted key
  aborts the object, one dirty key makes it dirty. The schema is built by \<^verbatim>\<open>z.object\<close>
  alone, without \<^verbatim>\<open>.strict()\<close>, so its policy for keys outside the shape is the
  default one, \<^verbatim>\<open>strip\<close>: they are neither read nor reported.
\<close>

definition mergeObjectSync ::
  "string ParseReturn \<Rightarrow> string ParseReturn \<Rightarrow> string option ParseReturn
     \<Rightarrow> string option ParseReturn \<Rightarrow> EmailRequest ParseReturn" where
  "mergeObjectSync r1 r2 r3 r4 =
     (case (value_of r1, value_of r2, value_of r3, value_of r4) of
        (Some t, Some s, Some x, Some h) \<Rightarrow>
          (if is_dirty r1 \<or> is_dirty r2 \<or> is_dirty r3 \<or> is_dirty r4
           then DIRTY \<lparr>req_to = t, req_subject = s, req_text = x, req_html = h\<rparr>
           else OK \<lparr>req_to = t, req_subject = s, req_text = x, req_html = h\<rparr>)
      | _ \<Rightarrow> INVALID)"

definition EmailSchema_object ::
  "(string \<Rightarrow> bool) \<Rightarrow> jsval \<Rightarrow> ZodIssue list \<times> EmailRequest ParseReturn" where
  "EmailSchema_object isEmail data =
     (case data of
        JObj kvs \<Rightarrow>
          (case ZodString_parse isEmail [Email ''Invalid recipient email address''] [''to'']
                  (js_get data ''to'') of (i1, r1) \<Rightarrow>
           case ZodString_parse isEmail [MinLen 1 ''Subject cannot be empty''] [''subject'']
                  (js_get data ''subject'') of (i2, r2) \<Rightarrow>
           case ZodOptional_parse (ZodString_parse isEmail []) [''text'']
                  (js_get data ''text'') of (i3, r3) \<Rightarrow>
           case ZodOptional_parse (ZodString_parse isEmail []) [''html'']
                  (js_get data ''html'') of (i4, r4) \<Rightarrow>
           (i1 @ i2 @ i3 @ i4, mergeObjectSync r1 r2 r3 r4))
      | _ \<Rightarrow> ([invalid_type [] ''object'' data], INVALID))"

text \<open>The predicate given to \<^verbatim>\<open>.refine\<close>: \<^verbatim>\<open>(data) => data.text || data.html\<close>.\<close>

definition content_provided :: "EmailRequest \<Rightarrow> bool" where
  "content_provided data = (truthy_str (req_text data) \<or> truthy_str (req_html data))"

definition content_issue :: ZodIssue where
  "content_issue =
     \<lparr>path = [''content''], message = ''Either text or html content must be provided''\<rparr>"

text \<open>
  \<^verbatim>\<open>ZodEffects._parse\<close> for a refinement: the inner schema runs first; when it aborted,
  the refinement is not run; otherwise the refinement runs on the inner value and a
  failure adds its issue.
\<close>

definition EmailSchema_run ::
  "(string \<Rightarrow> bool) \<Rightarrow> jsval \<Rightarrow> ZodIssue list \<times> EmailRequest ParseReturn" where
  "EmailSchema_run isEmail data =
     (case EmailSchema_object isEmail data of
        (issues, INVALID) \<Rightarrow> (issues, INVALID)
      | (issues, OK d) \<Rightarrow>
          (if content_provided d then (issues, OK d) else (issues @ [content_issue], DIRTY d))
      | (issues, DIRTY d) \<Rightarrow>
          (if content_provided d then (issues, DIRTY d) else (issues @ [content_issue], DIRTY d)))"

text \<open>\<^verbatim>\<open>EmailSchema.parse\<close>: the value when the status is valid, otherwise a thrown
  \<^verbatim>\<open>ZodError\<close> with all issues collected (\<open>Inl\<close>).\<close>

definition EmailSchema_parse :: "(string \<Rightarrow> bool) \<Rightarrow> jsval \<Rightarrow> ZodIssue list + EmailRequest" where
  "EmailSchema_parse isEmail data =
     (case EmailSchema_run isEmail data of
        (issues, OK d) \<Rightarrow> Inr d
      | (issues, _) \<Rightarrow> Inl issues)"

section \<open>Errors and the provider\<close>

text \<open>
  What a \<^verbatim>\<open>catch\<close> can receive: any value at all. The handler tells thrown values
  apart by \<^verbatim>\<open>instanceof z.ZodError\<close>, by \<^verbatim>\<open>typeof error === 'object'\<close> with
  \<^verbatim>\<open>'response' in error\<close>, and by \<^verbatim>\<open>instanceof Error\<close>; so a thrown value is a
  \<^verbatim>\<open>ZodError\<close> with its issues, another instance of \<^verbatim>\<open>Error\<close> with its properties, or
  any other value. The cast at line 169 (\<^verbatim>\<open>{ response?: { status?: number; body?: any } }\<close>)
  exists at compile time only: the properties of a thrown value are untyped data, and so
  is the \<^verbatim>\<open>message\<close> of an \<^verbatim>\<open>Error\<close>.
\<close>

datatype thrown =
    ZodError "ZodIssue list"
  | ErrorInst "(string \<times> jsval) list"
  | Thrown jsval

text \<open>The \<^verbatim>\<open>TypeError\<close> of a failed string conversion, with the text Deno's engine
  gives it.\<close>

definition TypeError :: thrown where
  "TypeError = ErrorInst [(''message'', JStr ''Cannot convert object to primitive value'')]"

text \<open>Process configuration, read once by the constructor (lines 57 and 64).\<close>

record config =
  apiKey :: string
  fromEmail :: string

text \<open>The message given to \<^verbatim>\<open>sgMail.send\<close>; an absent \<^verbatim>\<open>text\<close> or \<^verbatim>\<open>html\<close> key is
  \<open>None\<close>.\<close>

record MailData =
  msg_to :: string
  msg_from :: string
  msg_subject :: string
  msg_text :: "string option"
  msg_html :: "string option"

text \<open>The first element of what \<^verbatim>\<open>sgMail.send\<close> resolves to; the values of
  \<^verbatim>\<open>headers\<close> are strings, as the handler casts them.\<close>

record ClientResponse =
  statusCode :: int
  headers :: "(string \<times> string) list"

record SendResult =
  result_statusCode :: int
  messageId :: string

text \<open>
  The three library entry points the server calls, as parameters: the regular expression
  of \<^verbatim>\<open>z.string().email()\<close>, \<^verbatim>\<open>DOMPurify.sanitize\<close> and \<^verbatim>\<open>sgMail.send\<close>. The last two
  may throw (\<open>Inl\<close>).
\<close>

record deps =
  emailRegex_test :: "string \<Rightarrow> bool"
  DOMPurify_sanitize :: "string \<Rightarrow> thrown + string"
  sgMail_send :: "MailData \<Rightarrow> thrown + ClientResponse"

section \<open>The delivery client\<close>

text \<open>\<^verbatim>\<open>sanitizeHtml\<close> (lines 238-241).\<close>

definition sanitizeHtml :: "deps \<Rightarrow> string \<Rightarrow> thrown + string" where
  "sanitizeHtml d html = DOMPurify_sanitize d html"

text \<open>
  \<^verbatim>\<open>sendEmail\<close> (lines 215-236). The second component of the result is the list of
  messages handed to \<^verbatim>\<open>sgMail.send\<close> during the call.
\<close>

definition build_msg :: "config \<Rightarrow> EmailRequest \<Rightarrow> MailData" where
  "build_msg cfg emailData =
     \<lparr>msg_to = req_to emailData,
      msg_from = fromEmail cfg,
      msg_subject = req_subject emailData,
      msg_text = (if truthy_str (req_text emailData) then req_text emailData else None),
      msg_html = (if truthy_str (req_html emailData) then req_html emailData else None)\<rparr>"

definition sendEmail :: "deps \<Rightarrow> config \<Rightarrow> EmailRequest \<Rightarrow> (thrown + SendResult) \<times> MailData list" where
  "sendEmail d cfg emailData =
     (let msg = build_msg cfg emailData
      in (case sgMail_send d msg of
            Inl e \<Rightarrow> (Inl e, [msg])
          | Inr response \<Rightarrow>
              (Inr \<lparr>result_statusCode = statusCode response,
                    messageId = (case map_of (headers response) ''x-message-id'' of
                                   None \<Rightarrow> ''unknown''
                                 | Some v \<Rightarrow> if v \<noteq> [] then v else ''unknown'')\<rparr>,
               [msg])))"

section \<open>The dispatcher\<close>

datatype ContentItem = TextContent string

text \<open>A tool response; \<open>isError = None\<close> is a response without the \<^verbatim>\<open>isError\<close> key.\<close>

record ToolResponse =
  content :: "ContentItem list"
  isError :: "bool option"

record CallToolParams =
  params_name :: string
  params_arguments :: jsval

subsection \<open>Operators used on thrown values and on the error body\<close>

fun js_typeof :: "jsval \<Rightarrow> string" where
  "js_typeof JUndefined = ''undefined''"
| "js_typeof JNull = ''object''"
| "js_typeof (JBool _) = ''boolean''"
| "js_typeof (JNum _) = ''number''"
| "js_typeof (JStr _) = ''string''"
| "js_typeof (JArr _) = ''object''"
| "js_typeof (JObj _) = ''object''"

text \<open>
  \<^verbatim>\<open>k in v\<close>: a \<^verbatim>\<open>TypeError\<close> (\<open>None\<close>) when \<open>v\<close> is not an object, and \<^verbatim>\<open>null\<close> is
  not one. The properties of an array are its indices and \<^verbatim>\<open>length\<close>; inherited
  members of the prototypes are left out, none of them is named \<^verbatim>\<open>response\<close>,
  \<^verbatim>\<open>errors\<close> or \<^verbatim>\<open>message\<close>.
\<close>

fun js_in :: "string \<Rightarrow> jsval \<Rightarrow> bool option" where
  "js_in k (JObj kvs) = Some (map_of kvs k \<noteq> None)"
| "js_in k (JArr xs) = Some (k = ''length'' \<or> k \<in> set (map show_nat [0..<length xs]))"
| "js_in k _ = None"

text \<open>
  String conversion inside a template literal; \<open>None\<close> is a thrown \<^verbatim>\<open>TypeError\<close>. An
  array joins its elements with commas, \<^verbatim>\<open>null\<close> and \<^verbatim>\<open>undefined\<close> elements as empty
  strings. An object is \<^verbatim>\<open>[object Object]\<close>, unless the data itself has a key
  \<^verbatim>\<open>toString\<close>: that value is not callable, \<^verbatim>\<open>valueOf\<close> yields no primitive either,
  and the conversion throws.
\<close>

fun js_to_string :: "jsval \<Rightarrow> string option" where
  "js_to_string JUndefined = Some ''undefined''"
| "js_to_string JNull = Some ''null''"
| "js_to_string (JBool b) = Some (if b then ''true'' else ''false'')"
| "js_to_string (JNum n) = Some (show_int n)"
| "js_to_string (JStr s) = Some s"
| "js_to_string (JArr xs) =
     (let parts = map (\<lambda>v. if v = JUndefined \<or> v = JNull then Some [] else js_to_string v) xs
      in if None \<in> set parts then None else Some (join '','' (map the parts)))"
| "js_to_string (JObj kvs) =
     (if map_of kvs ''toString'' \<noteq> None then None else Some ''[object Object]'')"

subsection \<open>The catch block of \<^verbatim>\<open>handleSendEmail\<close> (lines 146-212)\<close>

text \<open>Lines 156: one \<^verbatim>\<open>path: message\<close> entry per issue, joined by a comma and a space.\<close>

definition errorMessages :: "ZodIssue list \<Rightarrow> string" where
  "errorMessages errors =
     join '', '' (map (\<lambda>err. join ''.'' (path err) @ '': '' @ message err) errors)"

text \<open>Line 168: \<^verbatim>\<open>error && typeof error === 'object' && 'response' in error\<close>, for a
  thrown value that is not a \<^verbatim>\<open>ZodError\<close>.\<close>

fun has_response :: "thrown \<Rightarrow> bool" where
  "has_response (ZodError _) = False"
| "has_response (ErrorInst props) = (map_of props ''response'' \<noteq> None)"
| "has_response (Thrown v) =
     (truthy v \<and> js_typeof v = ''object'' \<and> js_in ''response'' v = Some True)"

text \<open>\<^verbatim>\<open>error.response\<close>, and the optional read \<^verbatim>\<open>r?.k\<close>.\<close>

fun response_of :: "thrown \<Rightarrow> jsval" where
  "response_of (ZodError _) = JUndefined"
| "response_of (ErrorInst props) =
     (case map_of props ''response'' of None \<Rightarrow> JUndefined | Some r \<Rightarrow> r)"
| "response_of (Thrown v) = js_get v ''response''"

definition optional_get :: "jsval \<Rightarrow> string \<Rightarrow> jsval" where
  "optional_get r k = (if r = JUndefined \<or> r = JNull then JUndefined else js_get r k)"

text \<open>Lines 170 and 171: \<^verbatim>\<open>sendGridError.response?.status\<close>, the same with
  \<^verbatim>\<open>|| 'unknown'\<close>, and \<^verbatim>\<open>sendGridError.response?.body\<close>.\<close>

definition response_status :: "thrown \<Rightarrow> jsval" where
  "response_status error = optional_get (response_of error) ''status''"

definition status_or_unknown :: "thrown \<Rightarrow> jsval" where
  "status_or_unknown error =
     (if truthy (response_status error) then response_status error else JStr ''unknown'')"

definition response_body :: "thrown \<Rightarrow> jsval" where
  "response_body error = optional_get (response_of error) ''body''"

text \<open>\<^verbatim>\<open>error.message\<close> of an instance of \<^verbatim>\<open>Error\<close>: its own property, or the empty
  string of \<^verbatim>\<open>Error.prototype\<close>.\<close>

definition error_message :: "(string \<times> jsval) list \<Rightarrow> jsval" where
  "error_message props = (case map_of props ''message'' of None \<Rightarrow> JStr [] | Some m \<Rightarrow> m)"

text \<open>
  Lines 177-185, the body of the inner \<^verbatim>\<open>try\<close>: the text to append to the message, or
  \<open>None\<close> when one of the operators threw. The conjuncts are tested from left to right
  and the first false one ends the test.
\<close>

definition parse_error_body :: "jsval \<Rightarrow> string option" where
  "parse_error_body errorBody =
     (if truthy errorBody \<and> js_typeof errorBody = ''object'' then
        (case js_in ''errors'' errorBody of
           None \<Rightarrow> None
         | Some False \<Rightarrow> Some []
         | Some True \<Rightarrow>
             (case js_get errorBody ''errors'' of
                JArr errs \<Rightarrow>
                  (case errs of
                     [] \<Rightarrow> Some []
                   | e0 # _ \<Rightarrow>
                       (if js_typeof e0 = ''object'' then
                          (case js_in ''message'' e0 of
                             None \<Rightarrow> None
                           | Some False \<Rightarrow> Some []
                           | Some True \<Rightarrow>
                               (case js_to_string (js_get e0 ''message'') of
                                  None \<Rightarrow> None
                                | Some m \<Rightarrow> Some ('': '' @ m)))
                        else Some []))
              | _ \<Rightarrow> Some []))
      else Some [])"

definition error_response :: "string \<Rightarrow> ToolResponse" where
  "error_response t = \<lparr>content = [TextContent t], isError = Some True\<rparr>"

text \<open>
  The catch block. The template literals of line 173 (the status) and of line 207 (the
  message of an \<^verbatim>\<open>Error\<close>) convert their value to a string outside the inner \<^verbatim>\<open>try\<close>,
  which starts at line 176: when that conversion throws, the \<^verbatim>\<open>TypeError\<close> leaves the
  handler (\<open>Inl\<close>). What the inner \<^verbatim>\<open>try\<close> throws is caught, and the basic message is
  kept.
\<close>

definition catch_block :: "thrown \<Rightarrow> thrown + ToolResponse" where
  "catch_block error =
     (case error of
        ZodError errors \<Rightarrow> Inr (error_response (''Validation error: '' @ errorMessages errors))
      | _ \<Rightarrow>
          if has_response error then
            (case js_to_string (status_or_unknown error) of
               None \<Rightarrow> Inl TypeError
             | Some status \<Rightarrow>
                 Inr (error_response
                        (''SendGrid API error (status: '' @ status @ '')'' @
                         (case parse_error_body (response_body error) of
                            None \<Rightarrow> []
                          | Some suffix \<Rightarrow> suffix))))
          else
            (case error of
               ErrorInst props \<Rightarrow>
                 (case js_to_string (error_message props) of
                    None \<Rightarrow> Inl TypeError
                  | Some m \<Rightarrow> Inr (error_response (''Failed to send email: '' @ m)))
             | _ \<Rightarrow> Inr (error_response ''Failed to send email: Unknown error'')))"

subsection \<open>The try block (lines 125-145) and the handler\<close>

text \<open>Line 132: \<^verbatim>\<open>emailData.html ? this.sanitizeHtml(emailData.html) : undefined\<close>.\<close>

fun sanitized_html :: "deps \<Rightarrow> string option \<Rightarrow> thrown + string option" where
  "sanitized_html d None = Inr None"
| "sanitized_html d (Some html) =
     (if html \<noteq> [] then map_sum id Some (sanitizeHtml d html) else Inr None)"

definition try_block :: "deps \<Rightarrow> config \<Rightarrow> CallToolParams \<Rightarrow> (thrown + ToolResponse) \<times> MailData list" where
  "try_block d cfg request =
     (case EmailSchema_parse (emailRegex_test d) (params_arguments request) of
        Inl issues \<Rightarrow> (Inl (ZodError issues), [])
      | Inr emailData \<Rightarrow>
          (case sanitized_html d (req_html emailData) of
             Inl e \<Rightarrow> (Inl e, [])
           | Inr h \<Rightarrow>
               (case sendEmail d cfg (emailData\<lparr>req_html := h\<rparr>) of
                  (Inl e, sent) \<Rightarrow> (Inl e, sent)
                | (Inr response, sent) \<Rightarrow>
                    (Inr \<lparr>content =
                            [TextContent (''Email sent successfully! Status: '' @
                               show_int (result_statusCode response) @
                               '', Message ID: '' @ messageId response)],
                          isError = None\<rparr>,
                     sent))))"

text \<open>
  \<^verbatim>\<open>handleSendEmail\<close>: an asynchronous function either resolves to a response (\<open>Inr\<close>)
  or rejects with what was thrown (\<open>Inl\<close>). The log lines written by
  \<^verbatim>\<open>console.error\<close> are not part of the result.
\<close>

definition handleSendEmail :: "deps \<Rightarrow> config \<Rightarrow> CallToolParams \<Rightarrow> (thrown + ToolResponse) \<times> MailData list" where
  "handleSendEmail d cfg request =
     (case try_block d cfg request of
        (Inl error, sent) \<Rightarrow> (catch_block error, sent)
      | (Inr response, sent) \<Rightarrow> (Inr response, sent))"

subsection \<open>The call-tool request handler (lines 76 and 115-121)\<close>

definition toolHandlers ::
  "deps \<Rightarrow> config \<Rightarrow> string \<rightharpoonup> (CallToolParams \<Rightarrow> (thrown + ToolResponse) \<times> MailData list)" where
  "toolHandlers d cfg = [''send_email'' \<mapsto> handleSendEmail d cfg]"

definition callTool :: "deps \<Rightarrow> config \<Rightarrow> CallToolParams \<Rightarrow> (thrown + ToolResponse) \<times> MailData list" where
  "callTool d cfg request =
     (case toolHandlers d cfg (params_name request) of
        None \<Rightarrow>
          (Inl (ErrorInst [(''message'', JStr (''Unknown tool: '' @ params_name request))]), [])
      | Some handler \<Rightarrow> handler request)"

section \<open>The mock provider of the test file\<close>

text \<open>\<^verbatim>\<open>mockSendGrid.send\<close> (lines 9-31 of the test file).\<close>

definition mockSendGrid_send :: "MailData \<Rightarrow> thrown + ClientResponse" where
  "mockSendGrid_send msg =
     (if msg_to msg = ''fail@example.com'' then
        Inl (ErrorInst
               [(''message'', JStr ''SendGrid API Error''),
                (''response'',
                 JObj [(''status'', JNum 400),
                       (''body'', JObj [(''errors'',
                          JArr [JObj [(''message'', JStr ''Invalid recipient'')]])])])])
      else if msg_to msg = ''timeout@example.com'' then
        Inl (ErrorInst [(''message'', JStr ''Network timeout'')])
      else Inr \<lparr>statusCode = 202, headers = [(''x-message-id'', ''test-message-id-123'')]\<rparr>)"

text \<open>
  For the examples, a stand-in for the two other libraries: an address check that asks
  for an \<^verbatim>\<open>@\<close> only, and a sanitizer that returns markup without unsafe constructs as
  it is.
\<close>

definition test_deps :: deps where
  "test_deps =
     \<lparr>emailRegex_test = (\<lambda>s. CHR ''@'' \<in> set s),
      DOMPurify_sanitize = (\<lambda>html. Inr html),
      sgMail_send = mockSendGrid_send\<rparr>"

definition test_config :: config where
  "test_config = \<lparr>apiKey = ''SG.test'', fromEmail = ''sender@example.com''\<rparr>"

definition send_email_call :: "(string \<times> jsval) list \<Rightarrow> CallToolParams" where
  "send_email_call args = \<lparr>params_name = ''send_email'', params_arguments = JObj args\<rparr>"

section \<open>The wording of the specification\<close>

text \<open>
  The three rules of the validator as the specification names them, in its order, and
  the rules an input violates: the recipient is a string in the address format, the
  subject is a string that is not empty, and \<^verbatim>\<open>text\<close> or \<^verbatim>\<open>html\<close> holds content
  (a string that is not empty: an empty string counts as no content, as it does for the
  refinement of the schema).
\<close>

datatype rule = RecipientFormat | SubjectNonEmpty | ContentPresence






text \<open>
  The first structured error message of a provider's error body: the body is an object
  whose \<^verbatim>\<open>errors\<close> is a list that is not empty, and whose first entry is an object with
  a \<^verbatim>\<open>message\<close>.
\<close>

fun first_error_message :: "jsval \<Rightarrow> jsval option" where
  "first_error_message (JObj kvs) =
     (case map_of kvs ''errors'' of
        Some (JArr (JObj e # _)) \<Rightarrow> map_of e ''message''
      | _ \<Rightarrow> None)"
| "first_error_message _ = None"

text \<open>
  The status the error text is to carry: the number of an HTTP status, between 100 and
  599, or the sentinel when the response has no status. No other value is the status of a
  provider.
\<close>

fun spec_status_text :: "jsval \<Rightarrow> string option" where
  "spec_status_text JUndefined = Some ''unknown''"
| "spec_status_text (JNum n) = (if 100 \<le> n \<and> n \<le> 599 then Some (show_int n) else None)"
| "spec_status_text _ = None"

text \<open>
  The thrown values the catch block can answer: the value it converts to a string outside
  its inner \<^verbatim>\<open>try\<close> (the status of line 173, or the message of line 207) has a string
  conversion. A number and a string always have one.
\<close>

definition printable :: "thrown \<Rightarrow> bool" where
  "printable error =
     (case error of
        ZodError _ \<Rightarrow> True
      | _ \<Rightarrow>
          if has_response error then js_to_string (status_or_unknown error) \<noteq> None
          else (case error of
                  ErrorInst props \<Rightarrow> js_to_string (error_message props) \<noteq> None
                | _ \<Rightarrow> True))"

text \<open>
  Three more providers for the examples. One succeeds with an empty \<^verbatim>\<open>x-message-id\<close>
  header. The other two fail with a value that has no string conversion, the object
  \<^verbatim>\<open>{toString: null}\<close>: one as the status of the response, one as the message of the
  error.
\<close>

definition empty_id_deps :: deps where
  "empty_id_deps =
     test_deps\<lparr>sgMail_send :=
       (\<lambda>msg. Inr \<lparr>statusCode = 202, headers = [(''x-message-id'', [])]\<rparr>)\<rparr>"

definition unprintable_status_deps :: deps where
  "unprintable_status_deps =
     test_deps\<lparr>sgMail_send :=
       (\<lambda>msg. Inl (ErrorInst
                      [(''message'', JStr ''SendGrid API Error''),
                       (''response'', JObj [(''status'', JObj [(''toString'', JNull)])])]))\<rparr>"

definition unprintable_message_deps :: deps where
  "unprintable_message_deps =
     test_deps\<lparr>sgMail_send :=
       (\<lambda>msg. Inl (ErrorInst [(''message'', JObj [(''toString'', JNull)])]))\<rparr>"

section \<open>Properties of the validator\<close>

lemma unknown_key_ignored:
  assumes "k \<notin> {''to'', ''subject'', ''text'', ''html''}"
  shows "EmailSchema_parse isEmail (JObj ((k, v) # kvs)) = EmailSchema_parse isEmail (JObj kvs)"
proof -
  have g: "js_get (JObj ((k, v) # kvs)) key = js_get (JObj kvs) key" if "key \<noteq> k" for key
    using that by simp
  have "js_get (JObj ((k, v) # kvs)) ''to'' = js_get (JObj kvs) ''to''"
       "js_get (JObj ((k, v) # kvs)) ''subject'' = js_get (JObj kvs) ''subject''"
       "js_get (JObj ((k, v) # kvs)) ''text'' = js_get (JObj kvs) ''text''"
       "js_get (JObj ((k, v) # kvs)) ''html'' = js_get (JObj kvs) ''html''"
    using assms by (auto intro!: g)
  then show ?thesis
    by (simp add: EmailSchema_parse_def EmailSchema_run_def EmailSchema_object_def
          del: js_get.simps)
qed

text \<open>
  C2. The claim is that an input with a field other than \<^verbatim>\<open>to\<close>, \<^verbatim>\<open>subject\<close>,
  \<^verbatim>\<open>text\<close> and \<^verbatim>\<open>html\<close> is rejected. The schema does not reject it: an input with an
  added \<^verbatim>\<open>from\<close> field parses to the request without that field, and the handler sends
  the email and reports success.
\<close>

theorem unknown_field_is_accepted:
  "EmailSchema_parse (emailRegex_test test_deps)
     (JObj [(''to'', JStr ''test@example.com''), (''subject'', JStr ''Hi''),
            (''text'', JStr ''hello''), (''from'', JStr ''attacker@evil.example'')]) =
     Inr \<lparr>req_to = ''test@example.com'', req_subject = ''Hi'', req_text = Some ''hello'',
          req_html = None\<rparr> \<and>
   handleSendEmail test_deps test_config
     (send_email_call [(''to'', JStr ''test@example.com''), (''subject'', JStr ''Hi''),
                       (''text'', JStr ''hello''), (''from'', JStr ''attacker@evil.example'')]) =
     (Inr \<lparr>content = [TextContent
              ''Email sent successfully! Status: 202, Message ID: test-message-id-123''],
           isError = None\<rparr>,
      [\<lparr>msg_to = ''test@example.com'', msg_from = ''sender@example.com'', msg_subject = ''Hi'',
        msg_text = Some ''hello'', msg_html = None\<rparr>])"
  by code_simp




section \<open>Properties of the error mapping and of the success message\<close>

lemma show_nat_digits: "set (show_nat n) \<subseteq> set ''0123456789''"
proof (induction n rule: show_nat.induct)
  case (1 n)
  have d: "\<And>k. k < 10 \<Longrightarrow> digit_char k \<in> set ''0123456789''"
    unfolding digit_char_def by (rule nth_mem) simp
  show ?case
  proof (cases "n < 10")
    case True
    then show ?thesis using d [of n] by (subst show_nat.simps) simp
  next
    case False
    have "digit_char (n mod 10) \<in> set ''0123456789''" by (rule d) simp
    with False "1.IH" show ?thesis by (subst show_nat.simps) simp
  qed
qed

lemma array_has_no_errors: "js_in ''errors'' (JArr xs) = Some False"
proof -
  have "''errors'' \<noteq> show_nat i" for i
  proof
    assume "''errors'' = show_nat i"
    then have "CHR ''e'' \<in> set (show_nat i)" by (metis list.set_intros(1))
    with show_nat_digits [of i] show False by auto
  qed
  then show ?thesis by auto
qed

lemma array_has_no_message: "js_in ''message'' (JArr xs) = Some False"
proof -
  have "''message'' \<noteq> show_nat i" for i
  proof
    assume "''message'' = show_nat i"
    then have "CHR ''m'' \<in> set (show_nat i)" by (metis list.set_intros(1))
    with show_nat_digits [of i] show False by auto
  qed
  then show ?thesis by auto
qed

text \<open>The text the handler appends for the first entry of the list: nothing when the
  entry is \<^verbatim>\<open>null\<close> (the \<^verbatim>\<open>in\<close> operator throws and the inner \<^verbatim>\<open>catch\<close> takes
  over), an array or a primitive.\<close>

lemma first_entry_text:
  "(case (if js_typeof e0 = ''object'' then
            (case js_in ''message'' e0 of
               None \<Rightarrow> None
             | Some False \<Rightarrow> Some []
             | Some True \<Rightarrow>
                 (case js_to_string (js_get e0 ''message'') of
                    None \<Rightarrow> None
                  | Some m \<Rightarrow> Some ('': '' @ m)))
          else Some []) of None \<Rightarrow> [] | Some s \<Rightarrow> s) =
   (case e0 of
      JObj e \<Rightarrow>
        (case map_of e ''message'' of
           None \<Rightarrow> []
         | Some m \<Rightarrow> (case js_to_string m of None \<Rightarrow> [] | Some s \<Rightarrow> '': '' @ s))
    | _ \<Rightarrow> [])"
proof (cases e0)
  case (JArr ys)
  then show ?thesis by (simp add: array_has_no_message del: js_in.simps)
qed (auto split: option.splits)

lemma parse_error_body_text:
  "(case parse_error_body b of None \<Rightarrow> [] | Some s \<Rightarrow> s) =
   (case first_error_message b of
      None \<Rightarrow> []
    | Some m \<Rightarrow> (case js_to_string m of None \<Rightarrow> [] | Some s \<Rightarrow> '': '' @ s))"
proof (cases b)
  case (JArr xs)
  then show ?thesis
    by (simp add: parse_error_body_def array_has_no_errors del: js_in.simps)
next
  case (JObj kvs)
  show ?thesis
  proof (cases "map_of kvs ''errors''")
    case None
    with JObj show ?thesis by (simp add: parse_error_body_def)
  next
    case (Some v)
    show ?thesis
    proof (cases v)
      case (JArr errs)
      show ?thesis
      proof (cases errs)
        case Nil
        with JObj Some JArr show ?thesis by (simp add: parse_error_body_def)
      next
        case (Cons e0 rest)
        with JObj Some JArr show ?thesis
          using first_entry_text [of e0]
          by (simp add: parse_error_body_def split: jsval.splits option.splits)
      qed
    qed (use JObj Some in \<open>simp_all add: parse_error_body_def\<close>)
  qed
qed (simp_all add: parse_error_body_def)

text \<open>
  C6, as stated: every provider failure is answered with a text that carries the
  provider's status, or \<^verbatim>\<open>unknown\<close> when there is none. It does not hold for a failure
  thrown without a \<^verbatim>\<open>response\<close> property, such as the \<^verbatim>\<open>Network timeout\<close> of the
  mock provider: the handler takes its generic branch, and the text has neither a status
  nor the sentinel.
\<close>

theorem timeout_reported_without_status:
  "sgMail_send test_deps
     \<lparr>msg_to = ''timeout@example.com'', msg_from = ''sender@example.com'', msg_subject = ''Hi'',
      msg_text = Some ''hello'', msg_html = None\<rparr> =
     Inl (ErrorInst [(''message'', JStr ''Network timeout'')]) \<and>
   handleSendEmail test_deps test_config
     (send_email_call [(''to'', JStr ''timeout@example.com''), (''subject'', JStr ''Hi''),
                       (''text'', JStr ''hello'')]) =
     (Inr \<lparr>content = [TextContent ''Failed to send email: Network timeout''],
           isError = Some True\<rparr>,
      [\<lparr>msg_to = ''timeout@example.com'', msg_from = ''sender@example.com'',
        msg_subject = ''Hi'', msg_text = Some ''hello'', msg_html = None\<rparr>])"
  by code_simp

text \<open>
  C6, amended: when \<^verbatim>\<open>sgMail.send\<close> throws a value with a \<^verbatim>\<open>response\<close> property, the
  handler answers with \<^verbatim>\<open>isError: true\<close> and the text
  \<^verbatim>\<open>SendGrid API error (status: <status>)\<close>, where the status is the HTTP status of the
  response, or \<^verbatim>\<open>unknown\<close> when the response has none; the text continues with a colon
  and the first error message when the body has a list of errors with one, and with
  nothing for any other body, whatever its shape.
\<close>

theorem provider_failure_response:
  assumes "EmailSchema_parse (emailRegex_test d) (params_arguments request) = Inr emailData"
      and "sanitized_html d (req_html emailData) = Inr h"
      and "sgMail_send d (build_msg cfg (emailData\<lparr>req_html := h\<rparr>)) = Inl e"
      and "has_response e"
      and "spec_status_text (response_status e) = Some st"
  shows "fst (handleSendEmail d cfg request) =
           Inr \<lparr>content =
                  [TextContent (''SendGrid API error (status: '' @ st @ '')'' @
                     (case first_error_message (response_body e) of
                        None \<Rightarrow> []
                      | Some m \<Rightarrow>
                          (case js_to_string m of None \<Rightarrow> [] | Some s \<Rightarrow> '': '' @ s)))],
                 isError = Some True\<rparr>"
proof -
  have run: "fst (handleSendEmail d cfg request) = catch_block e"
    using assms(1-3) by (simp add: handleSendEmail_def try_block_def sendEmail_def)
  have status: "js_to_string (status_or_unknown e) = Some st"
    using assms(5)
    by (cases "response_status e") (auto simp: status_or_unknown_def split: if_splits)
  have "catch_block e =
          Inr (error_response
                 (''SendGrid API error (status: '' @ st @ '')'' @
                  (case parse_error_body (response_body e) of None \<Rightarrow> [] | Some s \<Rightarrow> s)))"
    using assms(4) status by (cases e) (simp_all add: catch_block_def)
  then show ?thesis
    by (simp add: run parse_error_body_text error_response_def)
qed

theorem provider_failure_response_witness:
  "fst (handleSendEmail test_deps test_config
          (send_email_call [(''to'', JStr ''fail@example.com''), (''subject'', JStr ''Hi''),
                            (''text'', JStr ''hello'')])) =
     Inr \<lparr>content = [TextContent ''SendGrid API error (status: 400): Invalid recipient''],
          isError = Some True\<rparr>"
proof -
  have p: "EmailSchema_parse (emailRegex_test test_deps)
             (params_arguments
                (send_email_call [(''to'', JStr ''fail@example.com''), (''subject'', JStr ''Hi''),
                                  (''text'', JStr ''hello'')])) =
           Inr \<lparr>req_to = ''fail@example.com'', req_subject = ''Hi'', req_text = Some ''hello'',
                req_html = None\<rparr>"
    by code_simp
  have s: "sanitized_html test_deps
             (req_html \<lparr>req_to = ''fail@example.com'', req_subject = ''Hi'',
                        req_text = Some ''hello'', req_html = None\<rparr>) = Inr None"
    by simp
  have f: "sgMail_send test_deps
             (build_msg test_config
                (\<lparr>req_to = ''fail@example.com'', req_subject = ''Hi'', req_text = Some ''hello'',
                  req_html = None\<rparr>\<lparr>req_html := None\<rparr>)) =
           Inl (ErrorInst
                  [(''message'', JStr ''SendGrid API Error''),
                   (''response'',
                    JObj [(''status'', JNum 400),
                          (''body'', JObj [(''errors'',
                             JArr [JObj [(''message'', JStr ''Invalid recipient'')]])])])])"
    by code_simp
  have r: "has_response (ErrorInst
                  [(''message'', JStr ''SendGrid API Error''),
                   (''response'',
                    JObj [(''status'', JNum 400),
                          (''body'', JObj [(''errors'',
                             JArr [JObj [(''message'', JStr ''Invalid recipient'')]])])])])"
    by simp
  have t: "spec_status_text (response_status (ErrorInst
                  [(''message'', JStr ''SendGrid API Error''),
                   (''response'',
                    JObj [(''status'', JNum 400),
                          (''body'', JObj [(''errors'',
                             JArr [JObj [(''message'', JStr ''Invalid recipient'')]])])])])) =
           Some ''400''"
    by code_simp
  show ?thesis
    using provider_failure_response [OF p s f r t]
    by (simp add: response_body_def optional_get_def)
qed

text \<open>
  C9, as stated: the message id of the success text is the \<^verbatim>\<open>x-message-id\<close> header, or
  \<^verbatim>\<open>unknown\<close> when the header is absent. It does not hold for a header that is present
  and empty: the text then says \<^verbatim>\<open>unknown\<close> too, since line 234 replaces every falsy
  value.
\<close>

theorem empty_message_id_reported_unknown:
  "sgMail_send empty_id_deps
     \<lparr>msg_to = ''test@example.com'', msg_from = ''sender@example.com'', msg_subject = ''Hi'',
      msg_text = Some ''hello'', msg_html = None\<rparr> =
     Inr \<lparr>statusCode = 202, headers = [(''x-message-id'', [])]\<rparr> \<and>
   handleSendEmail empty_id_deps test_config
     (send_email_call [(''to'', JStr ''test@example.com''), (''subject'', JStr ''Hi''),
                       (''text'', JStr ''hello'')]) =
     (Inr \<lparr>content = [TextContent ''Email sent successfully! Status: 202, Message ID: unknown''],
           isError = None\<rparr>,
      [\<lparr>msg_to = ''test@example.com'', msg_from = ''sender@example.com'', msg_subject = ''Hi'',
        msg_text = Some ''hello'', msg_html = None\<rparr>])"
  by code_simp

text \<open>
  C9, amended: after a successful send the response text is exactly
  \<^verbatim>\<open>Email sent successfully! Status: <statusCode>, Message ID: <messageId>\<close>, with the
  status of the provider's response and its \<^verbatim>\<open>x-message-id\<close> header, or \<^verbatim>\<open>unknown\<close>
  when that header is absent or empty.
\<close>

theorem success_response_text:
  assumes "EmailSchema_parse (emailRegex_test d) (params_arguments request) = Inr emailData"
      and "sanitized_html d (req_html emailData) = Inr h"
      and "sgMail_send d (build_msg cfg (emailData\<lparr>req_html := h\<rparr>)) = Inr response"
  shows "fst (handleSendEmail d cfg request) =
           Inr \<lparr>content =
                  [TextContent (''Email sent successfully! Status: '' @
                     show_int (statusCode response) @ '', Message ID: '' @
                     (case map_of (headers response) ''x-message-id'' of
                        None \<Rightarrow> ''unknown''
                      | Some v \<Rightarrow> if v = [] then ''unknown'' else v))],
                 isError = None\<rparr>"
  using assms
  by (simp add: handleSendEmail_def try_block_def sendEmail_def split: option.splits)

theorem success_response_text_witness:
  "fst (handleSendEmail test_deps test_config
          (send_email_call [(''to'', JStr ''test@example.com''), (''subject'', JStr ''Hi''),
                            (''text'', JStr ''hello'')])) =
     Inr \<lparr>content = [TextContent
            ''Email sent successfully! Status: 202, Message ID: test-message-id-123''],
          isError = None\<rparr>"
proof -
  have p: "EmailSchema_parse (emailRegex_test test_deps)
             (params_arguments
                (send_email_call [(''to'', JStr ''test@example.com''), (''subject'', JStr ''Hi''),
                                  (''text'', JStr ''hello'')])) =
           Inr \<lparr>req_to = ''test@example.com'', req_subject = ''Hi'', req_text = Some ''hello'',
                req_html = None\<rparr>"
    by code_simp
  have s: "sanitized_html test_deps
             (req_html \<lparr>req_to = ''test@example.com'', req_subject = ''Hi'',
                        req_text = Some ''hello'', req_html = None\<rparr>) = Inr None"
    by simp
  have f: "sgMail_send test_deps
             (build_msg test_config
                (\<lparr>req_to = ''test@example.com'', req_subject = ''Hi'', req_text = Some ''hello'',
                  req_html = None\<rparr>\<lparr>req_html := None\<rparr>)) =
           Inr \<lparr>statusCode = 202, headers = [(''x-message-id'', ''test-message-id-123'')]\<rparr>"
    by code_simp
  have n: "show_int 202 = ''202''"
    by code_simp
  show ?thesis
    using success_response_text [OF p s f]
    by (simp add: n)
qed

section \<open>Properties of the dispatcher\<close>

lemma catch_block_printable:
  assumes "printable e"
  shows "\<exists>t. catch_block e = Inr \<lparr>content = [TextContent t], isError = Some True\<rparr>"
  using assms
  by (cases e) (auto simp: catch_block_def printable_def error_response_def)

lemma catch_block_unprintable:
  assumes "\<not> printable e"
  shows "catch_block e = Inl TypeError"
  using assms
  by (cases e) (auto simp: catch_block_def printable_def split: if_splits)

lemma try_block_response:
  assumes "fst (try_block d cfg request) = Inr r"
  shows "\<exists>t. r = \<lparr>content = [TextContent t], isError = None\<rparr>"
  using assms by (auto simp: try_block_def split: sum.splits prod.splits)

lemma handleSendEmail_printable:
  assumes "\<And>err. fst (try_block d cfg request) = Inl err \<Longrightarrow> printable err"
  shows "\<exists>t e. fst (handleSendEmail d cfg request) = Inr \<lparr>content = [TextContent t], isError = e\<rparr>
          \<and> e \<in> {None, Some True}"
proof (cases "try_block d cfg request")
  case (Pair res sent)
  show ?thesis
  proof (cases res)
    case (Inl err)
    with Pair assms have "printable err" by simp
    with Pair Inl catch_block_printable [of err] show ?thesis
      by (auto simp: handleSendEmail_def)
  next
    case (Inr r)
    with Pair try_block_response [of d cfg request r] show ?thesis
      by (auto simp: handleSendEmail_def)
  qed
qed

lemma handleSendEmail_failure:
  assumes "fst (try_block d cfg request) = Inl err"
  shows "fst (handleSendEmail d cfg request) = catch_block err"
  using assms by (cases "try_block d cfg request") (simp add: handleSendEmail_def)

lemma sendEmail_sent: "snd (sendEmail d cfg emailData) = [build_msg cfg emailData]"
  by (simp add: sendEmail_def Let_def split: sum.splits)

lemma try_block_sent:
  "snd (try_block d cfg request) = [] \<or>
   (\<exists>emailData. snd (try_block d cfg request) = [build_msg cfg emailData])"
proof (cases "EmailSchema_parse (emailRegex_test d) (params_arguments request)")
  case (Inl issues)
  then show ?thesis by (simp add: try_block_def)
next
  case (Inr emailData)
  show ?thesis
  proof (cases "sanitized_html d (req_html emailData)")
    case (Inl e)
    with Inr show ?thesis by (simp add: try_block_def)
  next
    case inner: (Inr h)
    have "snd (try_block d cfg request) = snd (sendEmail d cfg (emailData\<lparr>req_html := h\<rparr>))"
      using Inr inner by (simp add: try_block_def split: prod.splits sum.splits)
    then show ?thesis by (metis sendEmail_sent)
  qed
qed

lemma handleSendEmail_sent: "snd (handleSendEmail d cfg request) = snd (try_block d cfg request)"
  by (simp add: handleSendEmail_def split: prod.splits sum.splits)

lemma handleSendEmail_from:
  "m \<in> set (snd (handleSendEmail d cfg request)) \<Longrightarrow> msg_from m = fromEmail cfg"
  using try_block_sent [of d cfg request]
  by (auto simp: handleSendEmail_sent build_msg_def)

text \<open>
  C1. Whatever the caller passes, a message handed to \<^verbatim>\<open>sgMail.send\<close> has the
  configured \<^verbatim>\<open>fromEmail\<close> as its \<^verbatim>\<open>from\<close>: \<^verbatim>\<open>sendEmail\<close> hands over exactly one
  message, with that sender, and any two calls of the handler under the same
  configuration, with any arguments and any behaviour of the libraries, send with the
  same \<^verbatim>\<open>from\<close>.
\<close>

theorem sender_is_configured:
  "(\<exists>msg. snd (sendEmail d cfg emailData) = [msg] \<and> msg_from msg = fromEmail cfg) \<and>
   (\<forall>m \<in> set (snd (handleSendEmail d cfg request)).
      \<forall>m' \<in> set (snd (handleSendEmail d' cfg request')).
        msg_from m = fromEmail cfg \<and> msg_from m' = msg_from m)"
proof (intro conjI ballI)
  show "\<exists>msg. snd (sendEmail d cfg emailData) = [msg] \<and> msg_from msg = fromEmail cfg"
    by (simp add: sendEmail_sent build_msg_def)
next
  fix m m'
  assume "m \<in> set (snd (handleSendEmail d cfg request))"
  then show "msg_from m = fromEmail cfg" by (rule handleSendEmail_from)
next
  fix m m'
  assume "m \<in> set (snd (handleSendEmail d cfg request))"
     and "m' \<in> set (snd (handleSendEmail d' cfg request'))"
  then show "msg_from m' = msg_from m" by (simp add: handleSendEmail_from)
qed

theorem sender_is_configured_witness:
  "snd (handleSendEmail test_deps test_config
          (send_email_call [(''to'', JStr ''test@example.com''), (''subject'', JStr ''Hi''),
                            (''text'', JStr ''hello'')])) =
     [\<lparr>msg_to = ''test@example.com'', msg_from = ''sender@example.com'', msg_subject = ''Hi'',
       msg_text = Some ''hello'', msg_html = None\<rparr>] \<and>
   snd (handleSendEmail test_deps test_config
          (send_email_call [(''to'', JStr ''other@example.com''), (''subject'', JStr ''Re''),
                            (''html'', JStr ''<p>x</p>''), (''from'', JStr ''attacker@evil.example'')])) =
     [\<lparr>msg_to = ''other@example.com'', msg_from = ''sender@example.com'', msg_subject = ''Re'',
       msg_text = None, msg_html = Some ''<p>x</p>''\<rparr>] \<and>
   msg_from \<lparr>msg_to = ''test@example.com'', msg_from = ''sender@example.com'', msg_subject = ''Hi'',
       msg_text = Some ''hello'', msg_html = None\<rparr> = fromEmail test_config \<and>
   msg_from \<lparr>msg_to = ''other@example.com'', msg_from = ''sender@example.com'', msg_subject = ''Re'',
       msg_text = None, msg_html = Some ''<p>x</p>''\<rparr> =
   msg_from \<lparr>msg_to = ''test@example.com'', msg_from = ''sender@example.com'', msg_subject = ''Hi'',
       msg_text = Some ''hello'', msg_html = None\<rparr>"
proof -
  have e1: "snd (handleSendEmail test_deps test_config
          (send_email_call [(''to'', JStr ''test@example.com''), (''subject'', JStr ''Hi''),
                            (''text'', JStr ''hello'')])) =
     [\<lparr>msg_to = ''test@example.com'', msg_from = ''sender@example.com'', msg_subject = ''Hi'',
       msg_text = Some ''hello'', msg_html = None\<rparr>]"
    by code_simp
  have e2: "snd (handleSendEmail test_deps test_config
          (send_email_call [(''to'', JStr ''other@example.com''), (''subject'', JStr ''Re''),
                            (''html'', JStr ''<p>x</p>''), (''from'', JStr ''attacker@evil.example'')])) =
     [\<lparr>msg_to = ''other@example.com'', msg_from = ''sender@example.com'', msg_subject = ''Re'',
       msg_text = None, msg_html = Some ''<p>x</p>''\<rparr>]"
    by code_simp
  show ?thesis
    using sender_is_configured [of test_deps test_config _
            "send_email_call [(''to'', JStr ''test@example.com''), (''subject'', JStr ''Hi''),
                              (''text'', JStr ''hello'')]"
            test_deps
            "send_email_call [(''to'', JStr ''other@example.com''), (''subject'', JStr ''Re''),
                              (''html'', JStr ''<p>x</p>''), (''from'', JStr ''attacker@evil.example'')]"]
    by (simp add: e1 e2)
qed

text \<open>
  C4. When validation fails, the handler answers with \<^verbatim>\<open>isError: true\<close> and the text
  \<^verbatim>\<open>Validation error:\<close> followed by the issues, and nothing is handed to
  \<^verbatim>\<open>sgMail.send\<close> during the call.
\<close>

theorem validation_failure_sends_nothing:
  assumes "EmailSchema_parse (emailRegex_test d) (params_arguments request) = Inl issues"
  shows "handleSendEmail d cfg request =
           (Inr \<lparr>content = [TextContent (''Validation error: '' @ errorMessages issues)],
                 isError = Some True\<rparr>, [])"
  using assms by (simp add: handleSendEmail_def try_block_def catch_block_def error_response_def)

theorem validation_failure_sends_nothing_witness:
  "EmailSchema_parse (emailRegex_test test_deps)
     (params_arguments (send_email_call [(''to'', JStr ''test@example.com''),
                                         (''subject'', JStr []), (''text'', JStr ''hi'')])) =
     Inl [\<lparr>path = [''subject''], message = ''Subject cannot be empty''\<rparr>] \<and>
   handleSendEmail test_deps test_config
     (send_email_call [(''to'', JStr ''test@example.com''),
                       (''subject'', JStr []), (''text'', JStr ''hi'')]) =
     (Inr \<lparr>content = [TextContent ''Validation error: subject: Subject cannot be empty''],
           isError = Some True\<rparr>, [])"
proof -
  have p: "EmailSchema_parse (emailRegex_test test_deps)
     (params_arguments (send_email_call [(''to'', JStr ''test@example.com''),
                                         (''subject'', JStr []), (''text'', JStr ''hi'')])) =
     Inl [\<lparr>path = [''subject''], message = ''Subject cannot be empty''\<rparr>]"
    by code_simp
  show ?thesis
    using validation_failure_sends_nothing [OF p, of test_config]
    by (simp add: p errorMessages_def)
qed

text \<open>
  C5, as stated: no exception escapes the handler, whatever error is raised. It does not
  hold for every thrown value: when the provider fails with a response whose status has
  no string conversion, the template literal of line 173, which stands before the inner
  \<^verbatim>\<open>try\<close>, throws a \<^verbatim>\<open>TypeError\<close> inside the catch block, and the handler rejects.
\<close>

theorem unprintable_status_escapes:
  "sgMail_send unprintable_status_deps
     \<lparr>msg_to = ''test@example.com'', msg_from = ''sender@example.com'', msg_subject = ''Hi'',
      msg_text = Some ''hello'', msg_html = None\<rparr> =
     Inl (ErrorInst
            [(''message'', JStr ''SendGrid API Error''),
             (''response'', JObj [(''status'', JObj [(''toString'', JNull)])])]) \<and>
   handleSendEmail unprintable_status_deps test_config
     (send_email_call [(''to'', JStr ''test@example.com''), (''subject'', JStr ''Hi''),
                       (''text'', JStr ''hello'')]) =
     (Inl (ErrorInst [(''message'', JStr ''Cannot convert object to primitive value'')]),
      [\<lparr>msg_to = ''test@example.com'', msg_from = ''sender@example.com'', msg_subject = ''Hi'',
        msg_text = Some ''hello'', msg_html = None\<rparr>])"
  by code_simp

text \<open>
  C5, amended: a call of \<^verbatim>\<open>handleSendEmail\<close> resolves to a response with one text item,
  without \<^verbatim>\<open>isError\<close> or with \<^verbatim>\<open>isError: true\<close>, whatever the arguments are and
  whatever the validator, the sanitizer or the provider throw, as long as the value that
  the catch block prints (the status of the thrown response, or the message of a thrown
  \<^verbatim>\<open>Error\<close> without response) has a string conversion, as every number and string has;
  when it has none, the handler rejects with the \<^verbatim>\<open>TypeError\<close> of the conversion.
\<close>

theorem handler_responds_when_printable:
  "((\<forall>err. fst (try_block d cfg request) = Inl err \<longrightarrow> printable err) \<longrightarrow>
      (\<exists>t e. fst (handleSendEmail d cfg request) = Inr \<lparr>content = [TextContent t], isError = e\<rparr>
             \<and> e \<in> {None, Some True})) \<and>
   ((\<exists>err. fst (try_block d cfg request) = Inl err \<and> \<not> printable err) \<longrightarrow>
      fst (handleSendEmail d cfg request) = Inl TypeError)"
proof (intro conjI impI)
  assume "\<forall>err. fst (try_block d cfg request) = Inl err \<longrightarrow> printable err"
  then show "\<exists>t e. fst (handleSendEmail d cfg request) =
                 Inr \<lparr>content = [TextContent t], isError = e\<rparr> \<and> e \<in> {None, Some True}"
    by (intro handleSendEmail_printable) simp
next
  assume "\<exists>err. fst (try_block d cfg request) = Inl err \<and> \<not> printable err"
  then obtain err where "fst (try_block d cfg request) = Inl err" and "\<not> printable err"
    by blast
  then show "fst (handleSendEmail d cfg request) = Inl TypeError"
    by (simp add: handleSendEmail_failure catch_block_unprintable)
qed

theorem handler_responds_when_printable_witness:
  "fst (try_block test_deps test_config
          (send_email_call [(''to'', JStr ''timeout@example.com''), (''subject'', JStr ''Hi''),
                            (''html'', JStr ''<p>hello</p>'')])) =
     Inl (ErrorInst [(''message'', JStr ''Network timeout'')]) \<and>
   printable (ErrorInst [(''message'', JStr ''Network timeout'')]) \<and>
   (\<exists>t e. fst (handleSendEmail test_deps test_config
          (send_email_call [(''to'', JStr ''timeout@example.com''), (''subject'', JStr ''Hi''),
                            (''html'', JStr ''<p>hello</p>'')])) =
            Inr \<lparr>content = [TextContent t], isError = e\<rparr> \<and> e \<in> {None, Some True})"
proof -
  have tb: "fst (try_block test_deps test_config
          (send_email_call [(''to'', JStr ''timeout@example.com''), (''subject'', JStr ''Hi''),
                            (''html'', JStr ''<p>hello</p>'')])) =
     Inl (ErrorInst [(''message'', JStr ''Network timeout'')])"
    by code_simp
  have pr: "printable (ErrorInst [(''message'', JStr ''Network timeout'')])"
    by code_simp
  show ?thesis
    using handler_responds_when_printable [of test_deps test_config
            "send_email_call [(''to'', JStr ''timeout@example.com''), (''subject'', JStr ''Hi''),
                              (''html'', JStr ''<p>hello</p>'')]"]
    by (simp add: tb pr)
qed

text \<open>
  C10, as stated: an unknown tool name makes the call-tool handler throw, unlike every
  failure inside the \<^verbatim>\<open>send_email\<close> handler. The second half does not hold for every
  failure: when the provider fails with an \<^verbatim>\<open>Error\<close> whose message has no string
  conversion, the template literal of line 207 throws inside the catch block, and the
  \<^verbatim>\<open>send_email\<close> call throws to the transport as well.
\<close>

theorem send_email_failure_can_throw:
  "sgMail_send unprintable_message_deps
     \<lparr>msg_to = ''test@example.com'', msg_from = ''sender@example.com'', msg_subject = ''Hi'',
      msg_text = Some ''hello'', msg_html = None\<rparr> =
     Inl (ErrorInst [(''message'', JObj [(''toString'', JNull)])]) \<and>
   callTool unprintable_message_deps test_config
     (send_email_call [(''to'', JStr ''test@example.com''), (''subject'', JStr ''Hi''),
                       (''text'', JStr ''hello'')]) =
     (Inl (ErrorInst [(''message'', JStr ''Cannot convert object to primitive value'')]),
      [\<lparr>msg_to = ''test@example.com'', msg_from = ''sender@example.com'', msg_subject = ''Hi'',
        msg_text = Some ''hello'', msg_html = None\<rparr>])"
  by code_simp

text \<open>
  C10, amended: a call whose tool name is not \<^verbatim>\<open>send_email\<close> makes the call-tool
  handler throw \<^verbatim>\<open>Error("Unknown tool: <name>")\<close> to the transport, with nothing sent,
  instead of returning a response with \<^verbatim>\<open>isError: true\<close>; a failure inside the
  \<^verbatim>\<open>send_email\<close> handler does return a response with \<^verbatim>\<open>isError: true\<close>, as long as the
  value that its catch block prints has a string conversion.
\<close>

theorem unknown_tool_throws:
  "(params_name request \<noteq> ''send_email'' \<longrightarrow>
      callTool d cfg request =
        (Inl (ErrorInst [(''message'', JStr (''Unknown tool: '' @ params_name request))]), [])) \<and>
   (params_name request = ''send_email'' \<longrightarrow>
      (\<forall>err. fst (try_block d cfg request) = Inl err \<longrightarrow> printable err \<longrightarrow>
         (\<exists>t. fst (callTool d cfg request) =
                Inr \<lparr>content = [TextContent t], isError = Some True\<rparr>)))"
proof (intro conjI impI allI)
  assume "params_name request \<noteq> ''send_email''"
  then show "callTool d cfg request =
      (Inl (ErrorInst [(''message'', JStr (''Unknown tool: '' @ params_name request))]), [])"
    by (simp add: callTool_def toolHandlers_def)
next
  fix err
  assume name: "params_name request = ''send_email''"
     and failure: "fst (try_block d cfg request) = Inl err"
     and "printable err"
  then obtain t where "catch_block err = Inr \<lparr>content = [TextContent t], isError = Some True\<rparr>"
    using catch_block_printable by blast
  with name failure show "\<exists>t. fst (callTool d cfg request) =
      Inr \<lparr>content = [TextContent t], isError = Some True\<rparr>"
    by (simp add: callTool_def toolHandlers_def handleSendEmail_failure)
qed

theorem unknown_tool_throws_witness:
  "callTool test_deps test_config
     \<lparr>params_name = ''delete_email'', params_arguments = JObj []\<rparr> =
     (Inl (ErrorInst [(''message'', JStr ''Unknown tool: delete_email'')]), []) \<and>
   fst (try_block test_deps test_config (send_email_call [])) =
     Inl (ZodError [\<lparr>path = [''to''], message = ''Required''\<rparr>,
                    \<lparr>path = [''subject''], message = ''Required''\<rparr>]) \<and>
   (\<exists>t. fst (callTool test_deps test_config (send_email_call [])) =
          Inr \<lparr>content = [TextContent t], isError = Some True\<rparr>)"
proof -
  have tb: "fst (try_block test_deps test_config (send_email_call [])) =
     Inl (ZodError [\<lparr>path = [''to''], message = ''Required''\<rparr>,
                    \<lparr>path = [''subject''], message = ''Required''\<rparr>])"
    by code_simp
  have pr: "printable (ZodError [\<lparr>path = [''to''], message = ''Required''\<rparr>,
                                 \<lparr>path = [''subject''], message = ''Required''\<rparr>])"
    by (simp add: printable_def)
  have nm: "params_name (send_email_call []) = ''send_email''"
    by (simp add: send_email_call_def)
  show ?thesis
    using unknown_tool_throws [of "\<lparr>params_name = ''delete_email'', params_arguments = JObj []\<rparr>"
            test_deps test_config]
          unknown_tool_throws [of "send_email_call []" test_deps test_config]
    by (simp add: tb pr nm)
qed

end
